theory Spec2Isabelle
  imports Complex_Main
begin

section \<open>Shared vocabulary: exceptions, responses, outcomes\<close>

text \<open>
  The services are Python (asyncio, httpx, FastAPI).  An awaited call either returns a
  value or raises; both are values of \<open>outcome\<close>.  The exception classes are the ones the
  code raises or names in its \<open>except\<close> clauses.
\<close>

record response =
  status_code :: int
  content :: string
  headers :: "(string \<times> string) list"

datatype exn =
    ConnectError                 \<comment> \<open>httpx.ConnectError\<close>
  | TimeoutException             \<comment> \<open>httpx.TimeoutException (connect/read/write/pool timeout)\<close>
  | RemoteProtocolError          \<comment> \<open>httpx.RemoteProtocolError\<close>
  | ConnectionError              \<comment> \<open>builtin ConnectionError\<close>
  | AsyncioTimeoutError          \<comment> \<open>asyncio.TimeoutError\<close>
  | HTTPStatusError response     \<comment> \<open>httpx.HTTPStatusError(response=...)\<close>
  | HTTPException int string "(string \<times> string) list"
                                 \<comment> \<open>fastapi.HTTPException(status_code, detail, headers)\<close>
  | RuntimeError string
  | OtherException string        \<comment> \<open>any other subclass of Exception\<close>

datatype 'a outcome = Return 'a | Raise exn


section \<open>Order orchestration: \<open>create_order\<close> in services/orders/main.py\<close>










section \<open>Printing integers: Python's \<open>str(int)\<close>\<close>

fun str_nat :: "nat \<Rightarrow> string" where
  "str_nat n =
     (if n < 10 then [''0123456789'' ! n]
      else str_nat (n div 10) @ [''0123456789'' ! (n mod 10)])"

declare str_nat.simps [simp del]

definition str_int :: "int \<Rightarrow> string" where
  "str_int i = (if i < 0 then CHR ''-'' # str_nat (nat (- i)) else str_nat (nat i))"

text \<open>Python's \<open>int(x)\<close> on a float truncates towards zero.\<close>

definition int_of_float :: "real \<Rightarrow> int" where
  "int_of_float x = (if x < 0 then \<lceil>x\<rceil> else \<lfloor>x\<rfloor>)"

section \<open>Deadline propagation: libs/resilience/timeout.py\<close>

record timeout_config =
  connect_timeout :: real
  read_timeout :: real
  write_timeout :: real
  deadline :: "real option"

definition default_timeout_config :: timeout_config where
  "default_timeout_config =
     \<lparr>connect_timeout = 2, read_timeout = 10, write_timeout = 5, deadline = None\<rparr>"

text \<open>
  \<open>TimeoutConfig.from_deadline_header\<close>.  Two things come from outside the function and
  are parameters here: \<open>to_float\<close>, the result of Python's builtin \<open>float()\<close> on the
  header string (\<open>None\<close> when it raises ValueError), and \<open>now\<close>, the reading of
  \<open>time.time()\<close>.  Floats are modelled as reals.
\<close>

definition from_deadline_header ::
  "(string \<Rightarrow> real option) \<Rightarrow> real \<Rightarrow> string option \<Rightarrow> timeout_config" where
  "from_deadline_header to_float now header_value =
     (let config = default_timeout_config in
      case header_value of
        None \<Rightarrow> config
      | Some h \<Rightarrow>
          if h = [] then config
          else (case to_float h of
                  None \<Rightarrow> config
                | Some d \<Rightarrow>
                    (let config = config\<lparr>deadline := Some d\<rparr>;
                         remaining = d - now
                     in if remaining > 0
                        then config\<lparr>read_timeout := min (read_timeout config) remaining\<rparr>
                        else config\<lparr>read_timeout := 1 / 1000\<rparr>)))"

text \<open>
  A reader for headers that are plain decimal digits, on which it agrees with \<open>float()\<close>;
  it is used to run \<open>from_deadline_header\<close> on concrete headers.
\<close>

definition digit_of :: "char \<Rightarrow> nat option" where
  "digit_of c =
     (if c \<in> set ''0123456789''
      then Some (length (takeWhile (\<lambda>d. d \<noteq> c) ''0123456789''))
      else None)"

fun digits_value :: "nat \<Rightarrow> string \<Rightarrow> nat option" where
  "digits_value acc [] = Some acc"
| "digits_value acc (c # cs) =
     (case digit_of c of None \<Rightarrow> None | Some d \<Rightarrow> digits_value (10 * acc + d) cs)"

definition float_of_digits :: "string \<Rightarrow> real option" where
  "float_of_digits h =
     (if h = [] then None else map_option real (digits_value 0 h))"

section \<open>Process state shared by the resilience wrappers\<close>

datatype circuit_state = CLOSED | OPEN | HALF_OPEN

text \<open>The mutable fields of one \<open>CircuitBreaker\<close>, with its gauge and trip counter.\<close>

record breaker =
  state :: circuit_state
  failures :: "real list"
  successes_in_half_open :: int
  opened_at :: "real option"
  breaker_state_gauge :: nat
  breaker_open_total :: nat

record breaker_config =
  breaker_name :: string
  failure_threshold :: int
  success_threshold :: int
  open_duration :: real
  window_size :: real

record bulkhead_config =
  bulkhead_name :: string
  max_concurrent :: int
  max_wait :: real

record retry_config =
  max_attempts :: int
  base_delay :: real
  max_delay :: real
  multiplier :: real
  jitter :: bool
  retryable_status_codes :: "int set"

text \<open>The records the retry engine hands to \<open>logger\<close>.\<close>

datatype retry_event =
    RetryingRequest int int real       \<comment> \<open>attempt + 1, status code, delay\<close>
  | RetryingAfterError int exn real    \<comment> \<open>attempt + 1, error, delay\<close>
  | RetryBudgetExhausted

text \<open>
  One record holds what the wrappers of one downstream read and write: the monotonic
  clock, the breaker, the bulkhead's semaphore, the retry budget (the shared one-element
  list of \<open>RetryConfig.retry_budget\<close>), the counters, the source of
  \<open>random.uniform\<close>, and the gateway's inflight counter.  A wrapped call is a function
  from this state to an outcome and the next state; calls run one after the other.
  \<open>sem_acquired\<close> and \<open>http_calls\<close> only count (completed \<open>acquire()\<close> calls, requests
  sent); nothing reads them to decide anything.

  The other tasks of the process appear through \<open>other_release\<close>: when the \<open>n\<close>-th wait
  on the semaphore starts, \<open>other_release n\<close> is the time after which another holder
  releases a slot, or \<open>None\<close> when none does.  \<open>sem_waits\<close> counts the waits.
\<close>

record sys =
  mono :: real
  breaker :: breaker
  sem_value :: int
  sem_acquired :: nat
  other_release :: "nat \<Rightarrow> real option"
  sem_waits :: nat
  bulkhead_rejections :: nat
  retry_budget :: "int option"
  retry_attempts_total :: nat
  retry_log :: "retry_event list"
  random_source :: "nat \<Rightarrow> real"
  random_used :: nat
  http_calls :: nat
  downstream_requests_total :: nat
  downstream_errors_total :: nat
  inflight :: int
  load_shed_total :: nat

type_synonym 'v call = "sys \<Rightarrow> 'v outcome \<times> sys"

text \<open>\<open>asyncio.sleep(delay)\<close>: the clock has advanced by the delay when the call resumes.\<close>

definition sleep :: "real \<Rightarrow> sys \<Rightarrow> sys" where
  "sleep delay s = s\<lparr>mono := mono s + delay\<rparr>"

section \<open>Retry engine: libs/resilience/retry.py\<close>

definition DEFAULT_RETRYABLE_STATUS :: "int set" where
  "DEFAULT_RETRYABLE_STATUS = {429, 500, 502, 503, 504}"

definition default_retry_config :: retry_config where
  "default_retry_config =
     \<lparr>max_attempts = 3, base_delay = 1 / 10, max_delay = 30, multiplier = 2,
      jitter = True, retryable_status_codes = DEFAULT_RETRYABLE_STATUS\<rparr>"

text \<open>What the wrapped function returns: an \<open>httpx.Response\<close> or any other value.\<close>

datatype 'a returned = Resp response | Other 'a

text \<open>The exception classes of the engine's first \<open>except\<close> clause.\<close>

fun retryable_exception :: "exn \<Rightarrow> bool" where
  "retryable_exception ConnectError = True"
| "retryable_exception TimeoutException = True"
| "retryable_exception RemoteProtocolError = True"
| "retryable_exception ConnectionError = True"
| "retryable_exception AsyncioTimeoutError = True"
| "retryable_exception e = False"

text \<open>\<open>last_exc or RuntimeError(msg)\<close>.\<close>

fun last_exc_or :: "exn option \<Rightarrow> string \<Rightarrow> exn" where
  "last_exc_or (Some e) msg = e"
| "last_exc_or None msg = RuntimeError msg"

text \<open>
  \<open>_backoff_delay\<close>: \<open>random.uniform(0, base)\<close> is \<open>base\<close> times the next draw of the
  random source (a number between 0 and 1).
\<close>

definition backoff_delay :: "nat \<Rightarrow> retry_config \<Rightarrow> sys \<Rightarrow> real \<times> sys" where
  "backoff_delay attempt config s =
     (let base = min (base_delay config * multiplier config ^ attempt) (max_delay config)
      in if jitter config
         then (random_source s (random_used s) * base, s\<lparr>random_used := random_used s + 1\<rparr>)
         else (base, s))"

definition budget_exhausted :: "sys \<Rightarrow> bool" where
  "budget_exhausted s = (case retry_budget s of None \<Rightarrow> False | Some b \<Rightarrow> b \<le> 0)"

definition spend_budget :: "sys \<Rightarrow> sys" where
  "spend_budget s = s\<lparr>retry_budget := map_option (\<lambda>b. b - 1) (retry_budget s)\<rparr>"

text \<open>
  The part of a loop iteration between the retry decision and the next iteration:
  compute the delay, count the retry, log it, spend the budget, sleep.
\<close>

definition schedule_retry ::
  "nat \<Rightarrow> retry_config \<Rightarrow> (real \<Rightarrow> retry_event) \<Rightarrow> sys \<Rightarrow> sys" where
  "schedule_retry attempt config entry s =
     (let (delay, s) = backoff_delay attempt config s;
          s = s\<lparr>retry_attempts_total := retry_attempts_total s + 1\<rparr>;
          s = s\<lparr>retry_log := retry_log s @ [entry delay]\<rparr>;
          s = spend_budget s
      in sleep delay s)"

text \<open>
  The \<open>for attempt in range(config.max_attempts)\<close> loop, from iteration \<open>attempt\<close> on;
  leaving the loop raises \<open>last_exc\<close>.
\<close>

function retry_loop ::
  "retry_config \<Rightarrow> 'a returned call \<Rightarrow> nat \<Rightarrow> exn option \<Rightarrow> 'a returned call" where
  "retry_loop config func attempt last_exc s =
     (if \<not> int attempt < max_attempts config
      then (Raise (last_exc_or last_exc ''Retry failed without exception''), s)
      else if budget_exhausted s
      then (Raise (last_exc_or last_exc ''Retry budget exhausted''),
            s\<lparr>retry_log := retry_log s @ [RetryBudgetExhausted]\<rparr>)
      else
        (case func s of
           (Return (Resp result), s1) \<Rightarrow>
             if status_code result \<in> retryable_status_codes config
                \<and> int attempt < max_attempts config - 1
             then retry_loop config func (attempt + 1) (Some (HTTPStatusError result))
                    (schedule_retry attempt config
                       (RetryingRequest (int attempt + 1) (status_code result)) s1)
             else (Return (Resp result), s1)
         | (Return (Other v), s1) \<Rightarrow> (Return (Other v), s1)
         | (Raise exc, s1) \<Rightarrow>
             if retryable_exception exc
             then (if int attempt < max_attempts config - 1
                   then retry_loop config func (attempt + 1) (Some exc)
                          (schedule_retry attempt config
                             (RetryingAfterError (int attempt + 1) exc) s1)
                   else (Raise exc, s1))
             else (Raise exc, s1)))"
  by pat_completeness auto
termination
  by (relation "measure (\<lambda>(config, func, attempt, last_exc, s).
                           nat (max_attempts config) - attempt)") auto

declare retry_loop.simps [simp del]

definition retry_with_backoff :: "'a returned call \<Rightarrow> retry_config \<Rightarrow> 'a returned call" where
  "retry_with_backoff func config s = retry_loop config func 0 None s"

section \<open>Circuit breaker: libs/resilience/circuit_breaker.py\<close>

definition init_breaker :: breaker where
  "init_breaker =
     \<lparr>state = CLOSED, failures = [], successes_in_half_open = 0, opened_at = None,
      breaker_state_gauge = 0, breaker_open_total = 0\<rparr>"

definition default_breaker_config :: "string \<Rightarrow> breaker_config" where
  "default_breaker_config n =
     \<lparr>breaker_name = n, failure_threshold = 5, success_threshold = 2,
      open_duration = 30, window_size = 60\<rparr>"

text \<open>
  The methods that run under the breaker's lock are functions of the breaker and of the
  readings of \<open>time.monotonic()\<close> they take.  \<open>_on_failure\<close> reads the clock twice: once
  for \<open>now\<close>, once more inside \<open>_prune_window\<close>.
\<close>

definition prune_window :: "breaker_config \<Rightarrow> real \<Rightarrow> breaker \<Rightarrow> breaker" where
  "prune_window cfg now b =
     (let cutoff = now - window_size cfg
      in b\<lparr>failures := filter (\<lambda>t. t > cutoff) (failures b)\<rparr>)"

definition trip :: "real \<Rightarrow> breaker \<Rightarrow> breaker" where
  "trip now b =
     b\<lparr>state := OPEN, opened_at := Some now, breaker_state_gauge := 1,
       breaker_open_total := breaker_open_total b + 1\<rparr>"

text \<open>
  \<open>_get_state\<close>; the state it returns is the \<open>state\<close> field of the result.  The test
  \<open>self._opened_at and ...\<close> is false for \<open>None\<close> and for \<open>0.0\<close>.
\<close>

definition get_state :: "breaker_config \<Rightarrow> real \<Rightarrow> breaker \<Rightarrow> breaker" where
  "get_state cfg now b =
     (if state b = OPEN then
        (if (case opened_at b of
               None \<Rightarrow> False
             | Some t \<Rightarrow> t \<noteq> 0 \<and> now - t \<ge> open_duration cfg)
         then b\<lparr>state := HALF_OPEN, successes_in_half_open := 0\<rparr>
         else b)
      else if state b = CLOSED then prune_window cfg now b
      else b)"

definition on_success :: "breaker_config \<Rightarrow> breaker \<Rightarrow> breaker" where
  "on_success cfg b =
     (if state b = HALF_OPEN then
        (let b = b\<lparr>successes_in_half_open := successes_in_half_open b + 1\<rparr>
         in if successes_in_half_open b \<ge> success_threshold cfg
            then b\<lparr>state := CLOSED, failures := [], breaker_state_gauge := 0\<rparr>
            else b)
      else b)"

definition on_failure :: "breaker_config \<Rightarrow> real \<Rightarrow> real \<Rightarrow> breaker \<Rightarrow> breaker" where
  "on_failure cfg now now_prune b =
     (if state b = HALF_OPEN then trip now b
      else
        (let b = b\<lparr>failures := failures b @ [now]\<rparr>;
             b = prune_window cfg now_prune b
         in if int (length (failures b)) \<ge> failure_threshold cfg then trip now b else b))"

text \<open>
  \<open>CircuitBreaker.call\<close>.  With the calls run one after the other, every reading of the
  clock inside one locked method gives the value of \<open>mono\<close> at that point.
\<close>

definition observe_state :: "breaker_config \<Rightarrow> sys \<Rightarrow> sys" where
  "observe_state cfg s = s\<lparr>breaker := get_state cfg (mono s) (breaker s)\<rparr>"

definition set_gauge :: "nat \<Rightarrow> sys \<Rightarrow> sys" where
  "set_gauge g s = s\<lparr>breaker := (breaker s)\<lparr>breaker_state_gauge := g\<rparr>\<rparr>"

text \<open>The state in which \<open>call\<close> reaches its \<open>try\<close>, when the breaker is not open.\<close>

definition before_func :: "breaker_config \<Rightarrow> sys \<Rightarrow> sys" where
  "before_func cfg s =
     (let s = observe_state cfg s
      in if state (breaker s) = HALF_OPEN then set_gauge 2 s else s)"

definition breaker_call ::
  "breaker_config \<Rightarrow> 'v call \<Rightarrow> 'v call option \<Rightarrow> 'v call" where
  "breaker_call cfg func fallback s =
     (if state (breaker (observe_state cfg s)) = OPEN then
        (let s = set_gauge 1 (observe_state cfg s)
         in case fallback of
              Some fb \<Rightarrow> fb s
            | None \<Rightarrow>
                (Raise (HTTPException 503
                          (''Circuit breaker OPEN for '' @ breaker_name cfg)
                          [(''Retry-After'', str_int (int_of_float (open_duration cfg)))]),
                 s))
      else
        (case func (before_func cfg s) of
           (Return result, s1) \<Rightarrow>
             (Return result, s1\<lparr>breaker := on_success cfg (breaker s1)\<rparr>)
         | (Raise exc, s1) \<Rightarrow>
             (Raise exc,
              s1\<lparr>breaker := on_failure cfg (mono s1) (mono s1) (breaker s1)\<rparr>)))"

text \<open>
  The breaker's methods as operations, to run sequences of them: any interleaving of
  concurrent \<open>call\<close>s is such a sequence, since each method holds the lock.
\<close>

datatype breaker_op = GetState real | OnSuccess | OnFailure real real

fun breaker_step :: "breaker_config \<Rightarrow> breaker \<Rightarrow> breaker_op \<Rightarrow> breaker" where
  "breaker_step cfg b (GetState now) = get_state cfg now b"
| "breaker_step cfg b OnSuccess = on_success cfg b"
| "breaker_step cfg b (OnFailure now now_prune) = on_failure cfg now now_prune b"

definition breaker_run :: "breaker_config \<Rightarrow> breaker_op list \<Rightarrow> breaker" where
  "breaker_run cfg ops = foldl (breaker_step cfg) init_breaker ops"

section \<open>Bulkhead: libs/resilience/bulkhead.py\<close>

text \<open>
  \<open>sem_value\<close> is the semaphore's \<open>_value\<close>, the number of free slots; \<open>acquire()\<close>
  takes one.
\<close>

definition take_slot :: "sys \<Rightarrow> sys" where
  "take_slot s = s\<lparr>sem_value := sem_value s - 1, sem_acquired := sem_acquired s + 1\<rparr>"

text \<open>
  \<open>asyncio.wait_for(self._semaphore.acquire(), timeout=self.max_wait)\<close>.
  \<^item> With a timeout of 0 or less, \<open>wait_for\<close> cancels the acquisition before it has
    started and raises TimeoutError, whatever the semaphore holds.
  \<^item> With a free slot, \<open>acquire()\<close> takes it at once.
  \<^item> Otherwise the call waits.  When another holder releases a slot before the timeout
    (the release adds one to \<open>_value\<close>), the waiter takes that slot; when none does,
    TimeoutError is raised after \<open>max_wait\<close>.
\<close>

definition wait_for_acquire :: "bulkhead_config \<Rightarrow> sys \<Rightarrow> unit outcome \<times> sys" where
  "wait_for_acquire cfg s =
     (if max_wait cfg \<le> 0 then (Raise AsyncioTimeoutError, s)
      else if sem_value s > 0 then (Return (), take_slot s)
      else
        (let waiting = s\<lparr>sem_waits := sem_waits s + 1\<rparr>
         in case other_release s (sem_waits s) of
              None \<Rightarrow>
                (Raise AsyncioTimeoutError, waiting\<lparr>mono := mono s + max_wait cfg\<rparr>)
            | Some d \<Rightarrow>
                if 0 \<le> d \<and> d < max_wait cfg
                then (Return (),
                      take_slot (waiting\<lparr>mono := mono s + d, sem_value := sem_value s + 1\<rparr>))
                else (Raise AsyncioTimeoutError, waiting\<lparr>mono := mono s + max_wait cfg\<rparr>)))"

text \<open>
  \<open>Bulkhead.call\<close>: a timeout is answered with the 503 and counted; otherwise \<open>func\<close>
  runs and the \<open>finally\<close> releases the slot whatever \<open>func\<close> did.
\<close>

definition bulkhead_call :: "bulkhead_config \<Rightarrow> 'v call \<Rightarrow> 'v call" where
  "bulkhead_call cfg func s =
     (case wait_for_acquire cfg s of
        (Raise exc, s) \<Rightarrow>
          (Raise (HTTPException 503
                    (''Bulkhead full for '' @ bulkhead_name cfg @ '' (max ''
                       @ str_int (max_concurrent cfg) @ '')'')
                    [(''Retry-After'', ''2'')]),
           s\<lparr>bulkhead_rejections := bulkhead_rejections s + 1\<rparr>)
      | (Return acquired, s) \<Rightarrow>
          (case func s of
             (r, s1) \<Rightarrow> (r, s1\<lparr>sem_value := sem_value s1 + 1\<rparr>)))"

section \<open>Load shedding: libs/resilience/backpressure.py\<close>

record backpressure_config =
  max_inflight :: int
  skip_paths :: "string set"

definition default_skip_paths :: "string set" where
  "default_skip_paths = {''/health'', ''/metrics'', ''/ready''}"

text \<open>
  The \<open>JSONResponse\<close> of a shed request; the body is the compact JSON rendering of the
  source's dictionary, in UTF-8.
\<close>

definition shed_response :: response where
  "shed_response =
     \<lparr>status_code = 429,
      content = ''{\"detail\":\"Too many requests ''
                  @ [CHR 0xC3, CHR 0xA2, CHR 0xE2, CHR 0x82, CHR 0xAC, CHR 0xE2, CHR 0x80, CHR 0x9C]
                  @ '' server overloaded\"}'',
      headers = [(''Retry-After'', ''5'')]\<rparr>"

text \<open>\<open>BackpressureMiddleware.dispatch\<close>; \<open>call_next\<close> is the rest of the handler chain.\<close>

definition dispatch :: "backpressure_config \<Rightarrow> string \<Rightarrow> response call \<Rightarrow> response call" where
  "dispatch cfg path call_next s =
     (if path \<in> skip_paths cfg then call_next s
      else if inflight s \<ge> max_inflight cfg then
        (Return shed_response, s\<lparr>load_shed_total := load_shed_total s + 1\<rparr>)
      else
        (let s = s\<lparr>inflight := inflight s + 1\<rparr>
         in case call_next s of
              (r, s1) \<Rightarrow> (r, s1\<lparr>inflight := inflight s1 - 1\<rparr>)))"

section \<open>Composition of the wrappers in the services\<close>

text \<open>
  The downstream server is a parameter: \<open>upstream n\<close> is what the HTTP client gets on
  the \<open>n\<close>-th request sent, a response or a transport error.
\<close>

text \<open>\<open>_do_request\<close> inside \<open>_forward\<close> (services/gateway/main.py).\<close>

definition do_request :: "(nat \<Rightarrow> response outcome) \<Rightarrow> unit returned call" where
  "do_request upstream s =
     (let s1 = s\<lparr>http_calls := http_calls s + 1\<rparr>
      in case upstream (http_calls s) of
           Raise exc \<Rightarrow> (Raise exc, s1)
         | Return resp \<Rightarrow>
             if status_code resp \<ge> 500 then (Raise (HTTPStatusError resp), s1)
             else (Return (Resp resp), s1))"

text \<open>The gateway's breaker and bulkhead for the orders service.\<close>

definition orders_breaker :: breaker_config where
  "orders_breaker =
     \<lparr>breaker_name = ''orders'', failure_threshold = 5, success_threshold = 2,
      open_duration = 30, window_size = 60\<rparr>"

definition orders_bulkhead :: bulkhead_config where
  "orders_bulkhead = \<lparr>bulkhead_name = ''orders'', max_concurrent = 50, max_wait = 1\<rparr>"

definition gateway_retry_config :: retry_config where
  "gateway_retry_config =
     \<lparr>max_attempts = 3, base_delay = 1 / 10, max_delay = 5, multiplier = 2,
      jitter = True, retryable_status_codes = DEFAULT_RETRYABLE_STATUS\<rparr>"

text \<open>\<open>_forward\<close>: the retry engine runs \<open>_in_bulkhead\<close>, which runs \<open>_in_breaker\<close>.\<close>

definition forward ::
  "(nat \<Rightarrow> response outcome) \<Rightarrow> breaker_config \<Rightarrow> bulkhead_config \<Rightarrow> unit returned call" where
  "forward upstream breaker_cfg bulkhead_cfg =
     (let do_request' = do_request upstream;
          in_breaker = breaker_call breaker_cfg do_request' None;
          in_bulkhead = bulkhead_call bulkhead_cfg in_breaker
      in retry_with_backoff in_bulkhead gateway_retry_config)"

text \<open>\<open>_do\<close> inside \<open>_call_payments\<close> (services/orders/main.py).\<close>

definition payments_do :: "(nat \<Rightarrow> response outcome) \<Rightarrow> unit returned call" where
  "payments_do upstream s =
     (let s = s\<lparr>downstream_requests_total := downstream_requests_total s + 1\<rparr>;
          s1 = s\<lparr>http_calls := http_calls s + 1\<rparr>
      in case upstream (http_calls s) of
           Raise exc \<Rightarrow> (Raise exc, s1)
         | Return resp \<Rightarrow>
             if status_code resp \<ge> 500
             then (Raise (HTTPStatusError resp),
                   s1\<lparr>downstream_errors_total := downstream_errors_total s1 + 1\<rparr>)
             else (Return (Resp resp), s1))"

definition payments_retry_config :: retry_config where
  "payments_retry_config =
     \<lparr>max_attempts = 3, base_delay = 2 / 10, max_delay = 5, multiplier = 2,
      jitter = True, retryable_status_codes = DEFAULT_RETRYABLE_STATUS\<rparr>"

definition payments_breaker :: breaker_config where
  "payments_breaker =
     \<lparr>breaker_name = ''payments'', failure_threshold = 5, success_threshold = 2,
      open_duration = 30, window_size = 60\<rparr>"

definition payments_bulkhead :: bulkhead_config where
  "payments_bulkhead = \<lparr>bulkhead_name = ''payments'', max_concurrent = 20, max_wait = 1\<rparr>"

text \<open>
  \<open>_call_payments\<close> up to \<open>resp.json()\<close>: a fresh budget of 3, then bulkhead around
  breaker around the retry engine around \<open>_do\<close>.
\<close>

definition call_payments :: "(nat \<Rightarrow> response outcome) \<Rightarrow> unit returned call" where
  "call_payments upstream s =
     (let s = s\<lparr>retry_budget := Some 3\<rparr>
      in bulkhead_call payments_bulkhead
           (breaker_call payments_breaker
              (retry_with_backoff (payments_do upstream) payments_retry_config) None) s)"

section \<open>Notifications service: services/notifications/main.py\<close>

text \<open>
  What the two ingestion paths do, in the order they do it: add an id to
  \<open>_processed_events\<close>, append to \<open>_event_log\<close>, XADD to the stream, log
  (\<open>logger.info\<close> with its message), XACK a stream message.
\<close>

datatype action =
    Added string                 \<comment> \<open>\<open>_processed_events.add(event_id)\<close>\<close>
  | Appended string              \<comment> \<open>\<open>_event_log.append({... event_id ...})\<close>\<close>
  | Published string             \<comment> \<open>\<open>_redis.xadd(...)\<close> carrying the event id\<close>
  | Logged string string         \<comment> \<open>\<open>logger.info(message, ... event ...)\<close>\<close>
  | Acked string string          \<comment> \<open>\<open>_redis.xack(..., msg_id)\<close>, for the event id\<close>

record notif =
  processed_events :: "string set"
  event_log :: "string list"
  stream :: "(string \<times> string) list list"
  acked :: "string list"
  duplicate_receive_total :: nat
  duplicate_consume_total :: nat
  history :: "action list"

definition init_notif :: notif where
  "init_notif =
     \<lparr>processed_events = {}, event_log = [], stream = [], acked = [],
      duplicate_receive_total = 0, duplicate_consume_total = 0, history = []\<rparr>"

text \<open>\<open>deque(maxlen=1000).append\<close>: a full deque drops its oldest entry.\<close>

definition deque_append :: "'a \<Rightarrow> 'a list \<Rightarrow> 'a list" where
  "deque_append x q = (if length q \<ge> 1000 then tl q @ [x] else q @ [x])"

definition did :: "action \<Rightarrow> notif \<Rightarrow> notif" where
  "did a s = s\<lparr>history := a # history s\<rparr>"

datatype receipt = Accepted string | AlreadyProcessed string

text \<open>
  The event id of each path: \<open>f"{event.event_type}:{event.aggregate_id}"\<close> over HTTP,
  \<open>data.get("event_id", str(msg_id))\<close> on the stream.
\<close>

definition http_event_id :: "string \<Rightarrow> string \<Rightarrow> string" where
  "http_event_id etype agg = etype @ '':'' @ agg"

definition stream_event_id :: "string \<Rightarrow> (string \<times> string) list \<Rightarrow> string" where
  "stream_event_id msg_id data =
     (case map_of data ''event_id'' of Some v \<Rightarrow> v | None \<Rightarrow> msg_id)"

text \<open>
  \<open>receive_event\<close>, the HTTP path.  \<open>redis_up\<close> says whether \<open>_redis\<close> is set;
  \<open>xadd_error\<close> is the exception \<open>xadd\<close> raises, if any (it is caught and logged).
\<close>

definition receive_event ::
  "string \<Rightarrow> string \<Rightarrow> string \<Rightarrow> bool \<Rightarrow> exn option \<Rightarrow> notif \<Rightarrow> receipt \<times> notif" where
  "receive_event etype agg body redis_up xadd_error s =
     (let event_id = http_event_id etype agg
      in if event_id \<in> processed_events s
         then (AlreadyProcessed event_id,
               s\<lparr>duplicate_receive_total := duplicate_receive_total s + 1\<rparr>)
         else
           (let s = did (Added event_id)
                      (s\<lparr>processed_events := insert event_id (processed_events s)\<rparr>);
                s = did (Appended event_id)
                      (s\<lparr>event_log := deque_append event_id (event_log s)\<rparr>);
                s = (if redis_up \<and> xadd_error = None
                     then did (Published event_id)
                            (s\<lparr>stream := stream s @
                                 [[(''event_id'', event_id), (''event_type'', etype),
                                   (''aggregate_id'', agg), (''payload'', body)]]\<rparr>)
                     else s);
                s = did (Logged ''event_received'' event_id) s
            in (Accepted event_id, s)))"

text \<open>
  One iteration of the consumer's inner loop, for the stream entry \<open>(msg_id, data)\<close>;
  \<open>xack_error\<close> is the exception \<open>xack\<close> raises, if any, which ends the batch.
\<close>

definition consume_entry ::
  "string \<Rightarrow> (string \<times> string) list \<Rightarrow> exn option \<Rightarrow> notif \<Rightarrow> exn option \<times> notif" where
  "consume_entry msg_id data xack_error s =
     (let event_id = stream_event_id msg_id data;
          xack = (\<lambda>s. case xack_error of
                         None \<Rightarrow> (None, did (Acked msg_id event_id)
                                           (s\<lparr>acked := acked s @ [msg_id]\<rparr>))
                       | Some exc \<Rightarrow> (Some exc, s))
      in if event_id \<in> processed_events s
         then xack (s\<lparr>duplicate_consume_total := duplicate_consume_total s + 1\<rparr>)
         else
           (let s = did (Added event_id)
                      (s\<lparr>processed_events := insert event_id (processed_events s)\<rparr>);
                s = did (Appended event_id)
                      (s\<lparr>event_log := deque_append event_id (event_log s)\<rparr>);
                s = did (Logged ''notification_sent'' event_id) s
            in xack s))"

text \<open>The entries of one \<open>xreadgroup\<close> batch, until one raises.\<close>

fun consume_entries ::
  "(string \<times> (string \<times> string) list \<times> exn option) list \<Rightarrow> notif \<Rightarrow> notif" where
  "consume_entries [] s = s"
| "consume_entries ((msg_id, data, xack_error) # rest) s =
     (case consume_entry msg_id data xack_error s of
        (None, s1) \<Rightarrow> consume_entries rest s1
      | (Some exc, s1) \<Rightarrow> s1)"

text \<open>What reaches the process: an HTTP event, or a batch read from the stream.\<close>

datatype delivery =
    HttpEvent string string string bool "exn option"
  | StreamBatch "(string \<times> (string \<times> string) list \<times> exn option) list"

fun deliver :: "notif \<Rightarrow> delivery \<Rightarrow> notif" where
  "deliver s (HttpEvent etype agg body redis_up xadd_error) =
     snd (receive_event etype agg body redis_up xadd_error s)"
| "deliver s (StreamBatch entries) = consume_entries entries s"

definition run_deliveries :: "delivery list \<Rightarrow> notif" where
  "run_deliveries ds = foldl deliver init_notif ds"


section \<open>Inputs for concrete runs\<close>

text \<open>
  A fresh process: clock at 0, breaker closed, 20 free slots, no other task about to
  release a slot, no retry budget, a random source that always draws 1 (so a jittered
  delay is the full backoff).
\<close>

definition s0 :: sys where
  "s0 = \<lparr>mono = 0, breaker = init_breaker, sem_value = 20, sem_acquired = 0,
     other_release = (\<lambda>n. None), sem_waits = 0, bulkhead_rejections = 0, retry_budget = None, retry_attempts_total = 0,
     retry_log = [], random_source = (\<lambda>n. 1), random_used = 0, http_calls = 0,
     downstream_requests_total = 0, downstream_errors_total = 0, inflight = 0,
     load_shed_total = 0\<rparr>"

definition resp :: "int \<Rightarrow> response" where
  "resp code = \<lparr>status_code = code, content = ''{}'', headers = []\<rparr>"

text \<open>A wrapped function that sends one request and always comes back with \<open>out\<close>.\<close>

definition answering :: "'a returned outcome \<Rightarrow> 'a returned call" where
  "answering out s = (out, s\<lparr>http_calls := http_calls s + 1\<rparr>)"

definition after_two_retries :: sys where
  "after_two_retries =
     s0\<lparr>mono := 3 / 10, retry_attempts_total := 2,
        retry_log := [RetryingRequest 1 503 (1 / 10), RetryingRequest 2 503 (2 / 10)],
        random_used := 2, http_calls := 2\<rparr>"

text \<open>A request whose shared retry budget allows one retry.\<close>

definition one_retry_left :: sys where
  "one_retry_left = s0\<lparr>retry_budget := Some 1\<rparr>"

text \<open>A breaker one failure short of tripping, and the breaker the fifth failure leaves.\<close>

definition four_failures :: breaker where
  "four_failures = init_breaker\<lparr>failures := [1, 2, 3, 4]\<rparr>"

definition open_since_5 :: breaker where
  "open_since_5 =
     \<lparr>state = OPEN, failures = [1, 2, 3, 4, 5], successes_in_half_open = 0,
      opened_at = Some 5, breaker_state_gauge = 1, breaker_open_total = 1\<rparr>"

text \<open>
  A bulkhead with no free slot; the same with another holder releasing a slot half a
  second into the wait; and a bulkhead configured not to wait at all.
\<close>

definition full :: sys where
  "full = s0\<lparr>sem_value := 0\<rparr>"



text \<open>The gateway's load-shed filter, and a handler chain that always ends in \<open>out\<close>.\<close>

definition edge_limit :: backpressure_config where
  "edge_limit = \<lparr>max_inflight = 200, skip_paths = default_skip_paths\<rparr>"

definition handler :: "response outcome \<Rightarrow> response call" where
  "handler out s = (out, s\<lparr>http_calls := http_calls s + 1\<rparr>)"

text \<open>
  A downstream whose first request fails to connect and whose later requests answer 200,
  and the gateway's fresh state (50 free slots).
\<close>

definition flaky_upstream :: "nat \<Rightarrow> response outcome" where
  "flaky_upstream n = (if n = 0 then Raise ConnectError else Return (resp 200))"

definition edge0 :: sys where
  "edge0 = s0\<lparr>sem_value := 50\<rparr>"

section \<open>Invariants, for the proofs\<close>

text \<open>The invariant of the breaker.\<close>

definition tripped_inv :: "breaker \<Rightarrow> bool" where
  "tripped_inv b =
     (((opened_at b = None) = (breaker_open_total b = 0))
      \<and> (state b \<noteq> OPEN \<or> opened_at b \<noteq> None))"


section \<open>Order orchestration: properties\<close>




section \<open>Retry engine: properties\<close>

text \<open>
  C2.  In any iteration the engine reaches with attempts and budget left, an outcome of
  the wrapped function that is a response with a status outside the retryable set (400,
  401, 404 with the default set), a value that is no response, or an exception outside
  the transport classes, is what the engine returns or raises at once: its result is
  that outcome and its final state is the state the function left, so nothing was
  counted, logged, slept or retried.  Only a response with a retryable status and a
  transport exception can lead to another iteration.
\<close>

theorem retry_surfaces_non_retryable:
  assumes "int attempt < max_attempts config" and "\<not> budget_exhausted s"
  shows "(func s = (Return (Resp r), s1) \<and> status_code r \<notin> retryable_status_codes config
            \<longrightarrow> retry_loop config func attempt last_exc s = (Return (Resp r), s1))
       \<and> (func s = (Return (Other v), s1)
            \<longrightarrow> retry_loop config func attempt last_exc s = (Return (Other v), s1))
       \<and> (func s = (Raise e, s1) \<and> \<not> retryable_exception e
            \<longrightarrow> retry_loop config func attempt last_exc s = (Raise e, s1))"
  using assms by (simp add: retry_loop.simps)

theorem retry_surfaces_non_retryable_witness:
  "retry_with_backoff (answering (Return (Resp (resp 404)))) default_retry_config s0
     = (Return (Resp (resp 404)), s0\<lparr>http_calls := 1\<rparr>)
   \<and> retry_with_backoff (answering (Return (Resp (resp 400)))) default_retry_config s0
     = (Return (Resp (resp 400)), s0\<lparr>http_calls := 1\<rparr>)
   \<and> retry_with_backoff (answering (Return (Resp (resp 401)))) default_retry_config s0
     = (Return (Resp (resp 401)), s0\<lparr>http_calls := 1\<rparr>)
   \<and> retry_with_backoff (answering (Raise (HTTPStatusError (resp 500)))) default_retry_config s0
     = (Raise (HTTPStatusError (resp 500)), s0\<lparr>http_calls := 1\<rparr>)
   \<and> retry_attempts_total (s0\<lparr>http_calls := 1\<rparr>) = 0"
  using
    retry_surfaces_non_retryable [where attempt = 0 and config = default_retry_config
      and s = s0 and func = "answering (Return (Resp (resp 404)))" and r = "resp 404"
      and ?s1.0 = "s0\<lparr>http_calls := 1\<rparr>" and last_exc = None]
    retry_surfaces_non_retryable [where attempt = 0 and config = default_retry_config
      and s = s0 and func = "answering (Return (Resp (resp 400)))" and r = "resp 400"
      and ?s1.0 = "s0\<lparr>http_calls := 1\<rparr>" and last_exc = None]
    retry_surfaces_non_retryable [where attempt = 0 and config = default_retry_config
      and s = s0 and func = "answering (Return (Resp (resp 401)))" and r = "resp 401"
      and ?s1.0 = "s0\<lparr>http_calls := 1\<rparr>" and last_exc = None]
    retry_surfaces_non_retryable [where attempt = 0 and config = default_retry_config
      and s = s0 and func = "answering (Raise (HTTPStatusError (resp 500)))"
      and e = "HTTPStatusError (resp 500)"
      and ?s1.0 = "s0\<lparr>http_calls := 1\<rparr>" and last_exc = None]
  by (simp add: retry_with_backoff_def default_retry_config_def DEFAULT_RETRYABLE_STATUS_def
      budget_exhausted_def s0_def answering_def resp_def)

lemma budget_ends_after_response:
  assumes "int attempt < max_attempts config - 1" and "\<not> budget_exhausted s"
      and "func s = (Return (Resp r), s1)"
      and "status_code r \<in> retryable_status_codes config"
      and "budget_exhausted
             (schedule_retry attempt config
                (RetryingRequest (int attempt + 1) (status_code r)) s1)"
  shows "fst (retry_loop config func attempt last_exc s) = Raise (HTTPStatusError r)"
proof -
  have first: "retry_loop config func attempt last_exc s
      = retry_loop config func (attempt + 1) (Some (HTTPStatusError r))
          (schedule_retry attempt config
             (RetryingRequest (int attempt + 1) (status_code r)) s1)"
    using assms(1-4) by (subst retry_loop.simps) simp
  have second: "fst (retry_loop config func (attempt + 1) (Some (HTTPStatusError r))
          (schedule_retry attempt config
             (RetryingRequest (int attempt + 1) (status_code r)) s1))
      = Raise (HTTPStatusError r)"
    using assms(1,5) by (subst retry_loop.simps) simp
  show ?thesis by (simp only: first second)
qed

text \<open>
  C9, as the code has it.  In the iteration with attempt number \<open>max_attempts - 1\<close>,
  reached with the budget not exhausted, a response with a retryable status is returned
  as the engine's value and a transport exception is re-raised.  An iteration reached
  with the shared budget exhausted runs no attempt and raises the last error; so when
  the retry scheduled after a retryable response uses up the budget, the engine raises
  the \<open>HTTPStatusError\<close> carrying that response.
\<close>

theorem retry_final_attempt:
  assumes "int attempt < max_attempts config"
  shows "(\<not> budget_exhausted s \<and> int attempt = max_attempts config - 1
          \<and> func s = (Return (Resp r), s1)
          \<and> status_code r \<in> retryable_status_codes config
            \<longrightarrow> retry_loop config func attempt last_exc s = (Return (Resp r), s1))
       \<and> (\<not> budget_exhausted s \<and> int attempt = max_attempts config - 1
          \<and> func s = (Raise e, s1) \<and> retryable_exception e
            \<longrightarrow> retry_loop config func attempt last_exc s = (Raise e, s1))
       \<and> (budget_exhausted s
            \<longrightarrow> retry_loop config func attempt last_exc s
                 = (Raise (last_exc_or last_exc ''Retry budget exhausted''),
                    s\<lparr>retry_log := retry_log s @ [RetryBudgetExhausted]\<rparr>))
       \<and> (\<not> budget_exhausted s \<and> int attempt < max_attempts config - 1
          \<and> func s = (Return (Resp r), s1)
          \<and> status_code r \<in> retryable_status_codes config
          \<and> budget_exhausted
               (schedule_retry attempt config
                  (RetryingRequest (int attempt + 1) (status_code r)) s1)
            \<longrightarrow> fst (retry_loop config func attempt last_exc s) = Raise (HTTPStatusError r))"
proof -
  have last_or_budget:
    "(\<not> budget_exhausted s \<and> int attempt = max_attempts config - 1
          \<and> func s = (Return (Resp r), s1)
          \<and> status_code r \<in> retryable_status_codes config
            \<longrightarrow> retry_loop config func attempt last_exc s = (Return (Resp r), s1))
       \<and> (\<not> budget_exhausted s \<and> int attempt = max_attempts config - 1
          \<and> func s = (Raise e, s1) \<and> retryable_exception e
            \<longrightarrow> retry_loop config func attempt last_exc s = (Raise e, s1))
       \<and> (budget_exhausted s
            \<longrightarrow> retry_loop config func attempt last_exc s
                 = (Raise (last_exc_or last_exc ''Retry budget exhausted''),
                    s\<lparr>retry_log := retry_log s @ [RetryBudgetExhausted]\<rparr>))"
    using assms by (subst (1 2 3) retry_loop.simps) simp
  show ?thesis
    using last_or_budget budget_ends_after_response [of attempt config s func r s1 last_exc]
    by blast
qed

lemma two_retries:
  "retry_with_backoff (answering (Return (Resp (resp 503)))) default_retry_config s0
    = retry_loop default_retry_config (answering (Return (Resp (resp 503)))) 2
        (Some (HTTPStatusError (resp 503))) after_two_retries"
  apply (simp add: retry_with_backoff_def)
  apply (subst retry_loop.simps)
  apply (simp add: default_retry_config_def DEFAULT_RETRYABLE_STATUS_def
      budget_exhausted_def s0_def answering_def resp_def schedule_retry_def backoff_delay_def
      spend_budget_def sleep_def)
  apply (subst retry_loop.simps)
  apply (simp add: default_retry_config_def DEFAULT_RETRYABLE_STATUS_def
      budget_exhausted_def s0_def answering_def resp_def schedule_retry_def backoff_delay_def
      spend_budget_def sleep_def after_two_retries_def numeral_2_eq_2)
  done

theorem retry_final_attempt_witness:
  "retry_with_backoff (answering (Return (Resp (resp 503)))) default_retry_config s0
     = (Return (Resp (resp 503)), after_two_retries\<lparr>http_calls := 3\<rparr>)
   \<and> retry_loop default_retry_config (answering (Raise ConnectError)) 2 None s0
     = (Raise ConnectError, s0\<lparr>http_calls := 1\<rparr>)
   \<and> retry_loop default_retry_config (answering (Return (Resp (resp 503)))) 1
        (Some (HTTPStatusError (resp 503))) (s0\<lparr>retry_budget := Some 0\<rparr>)
     = (Raise (HTTPStatusError (resp 503)),
        s0\<lparr>retry_budget := Some 0, retry_log := [RetryBudgetExhausted]\<rparr>)
   \<and> fst (retry_loop default_retry_config (answering (Return (Resp (resp 503)))) 0 None
            one_retry_left)
     = Raise (HTTPStatusError (resp 503))"
proof -
  have in_range: "int 2 < max_attempts default_retry_config"
       "int 1 < max_attempts default_retry_config" "int 0 < max_attempts default_retry_config"
    by (simp_all add: default_retry_config_def)
  have last_response:
    "retry_loop default_retry_config (answering (Return (Resp (resp 503)))) 2
       (Some (HTTPStatusError (resp 503))) after_two_retries
     = (Return (Resp (resp 503)), after_two_retries\<lparr>http_calls := 3\<rparr>)"
    using retry_final_attempt [OF in_range(1), where s = after_two_retries
      and func = "answering (Return (Resp (resp 503)))"
      and r = "resp 503" and ?s1.0 = "after_two_retries\<lparr>http_calls := 3\<rparr>"
      and last_exc = "Some (HTTPStatusError (resp 503))", THEN conjunct1]
    by (simp add: default_retry_config_def DEFAULT_RETRYABLE_STATUS_def
        budget_exhausted_def s0_def answering_def resp_def after_two_retries_def)
  have last_error:
    "retry_loop default_retry_config (answering (Raise ConnectError)) 2 None s0
     = (Raise ConnectError, s0\<lparr>http_calls := 1\<rparr>)"
    using retry_final_attempt [OF in_range(1), where s = s0
      and func = "answering (Raise ConnectError)" and e = ConnectError
      and ?s1.0 = "s0\<lparr>http_calls := 1\<rparr>" and last_exc = None,
      THEN conjunct2, THEN conjunct1]
    by (simp add: default_retry_config_def budget_exhausted_def s0_def answering_def)
  have no_budget:
    "retry_loop default_retry_config (answering (Return (Resp (resp 503)))) 1
        (Some (HTTPStatusError (resp 503))) (s0\<lparr>retry_budget := Some 0\<rparr>)
     = (Raise (HTTPStatusError (resp 503)),
        s0\<lparr>retry_budget := Some 0, retry_log := [RetryBudgetExhausted]\<rparr>)"
    using retry_final_attempt [OF in_range(2), where s = "s0\<lparr>retry_budget := Some 0\<rparr>"
      and func = "answering (Return (Resp (resp 503)))"
      and last_exc = "Some (HTTPStatusError (resp 503))",
      THEN conjunct2, THEN conjunct2, THEN conjunct1]
    by (simp add: budget_exhausted_def s0_def)
  have spent:
    "\<not> budget_exhausted one_retry_left
     \<and> int 0 < max_attempts default_retry_config - 1
     \<and> answering (Return (Resp (resp 503))) one_retry_left
         = (Return (Resp (resp 503)), one_retry_left\<lparr>http_calls := 1\<rparr>)
     \<and> status_code (resp 503) \<in> retryable_status_codes default_retry_config
     \<and> budget_exhausted
          (schedule_retry 0 default_retry_config
             (RetryingRequest (int 0 + 1) (status_code (resp 503)))
             (one_retry_left\<lparr>http_calls := 1\<rparr>))"
    by (simp add: default_retry_config_def DEFAULT_RETRYABLE_STATUS_def budget_exhausted_def
        one_retry_left_def s0_def answering_def resp_def schedule_retry_def backoff_delay_def
        spend_budget_def sleep_def)
  have budget_run:
    "fst (retry_loop default_retry_config (answering (Return (Resp (resp 503)))) 0 None
            one_retry_left)
     = Raise (HTTPStatusError (resp 503))"
    using retry_final_attempt [OF in_range(3), where s = one_retry_left
      and func = "answering (Return (Resp (resp 503)))" and r = "resp 503"
      and ?s1.0 = "one_retry_left\<lparr>http_calls := 1\<rparr>" and last_exc = None,
      THEN conjunct2, THEN conjunct2, THEN conjunct2] spent
    by blast
  show ?thesis
    by (simp only: two_retries last_response last_error no_budget budget_run)
qed

text \<open>
  C9 as stated fails: with a shared budget of one retry and a downstream that always
  answers 503, attempt 0 is the last attempt the engine makes; it completes with a
  retryable status, and the engine raises \<open>HTTPStatusError\<close> instead of returning the
  response.
\<close>

theorem retry_budget_counterexample:
  "fst (retry_with_backoff (answering (Return (Resp (resp 503)))) default_retry_config
          one_retry_left)
     = Raise (HTTPStatusError (resp 503))
   \<and> http_calls (snd (retry_with_backoff (answering (Return (Resp (resp 503))))
                        default_retry_config one_retry_left)) = 1
   \<and> 503 \<in> retryable_status_codes default_retry_config"
  by (simp add: retry_with_backoff_def retry_loop.simps default_retry_config_def
      DEFAULT_RETRYABLE_STATUS_def budget_exhausted_def one_retry_left_def s0_def
      answering_def resp_def schedule_retry_def backoff_delay_def spend_budget_def sleep_def)

section \<open>Circuit breaker: properties\<close>

text \<open>
  C5.  When recording a failure brings the number of failure timestamps inside the
  window to \<open>failure_threshold\<close> or more, \<open>_on_failure\<close> leaves the breaker Open with
  opened-at equal to the \<open>now\<close> of that failure; this is what a \<open>call\<close> does when its
  function raises; and a \<open>call\<close> that observes Open does not run the function: it
  raises the 503 (or runs the fallback) from the observed state.
\<close>

theorem breaker_trips_and_short_circuits:
  "(failure_threshold cfg
      \<le> int (length (filter (\<lambda>t. t > now_prune - window_size cfg) (failures b @ [now])))
     \<longrightarrow> state (on_failure cfg now now_prune b) = OPEN
         \<and> opened_at (on_failure cfg now now_prune b) = Some now)
   \<and> (state (breaker (observe_state cfg s)) \<noteq> OPEN
       \<and> func (before_func cfg s) = (Raise e, s1)
       \<and> failure_threshold cfg
            \<le> int (length (filter (\<lambda>t. t > mono s1 - window_size cfg)
                              (failures (breaker s1) @ [mono s1])))
     \<longrightarrow> fst (breaker_call cfg func fallback s) = Raise e
         \<and> state (breaker (snd (breaker_call cfg func fallback s))) = OPEN
         \<and> opened_at (breaker (snd (breaker_call cfg func fallback s))) = Some (mono s1))
   \<and> (state (breaker (observe_state cfg s)) = OPEN
     \<longrightarrow> breaker_call cfg func None s =
           (Raise (HTTPException 503 (''Circuit breaker OPEN for '' @ breaker_name cfg)
                     [(''Retry-After'', str_int (int_of_float (open_duration cfg)))]),
            set_gauge 1 (observe_state cfg s))
         \<and> breaker_call cfg func (Some fb) s = fb (set_gauge 1 (observe_state cfg s)))"
  by (auto simp: on_failure_def trip_def prune_window_def breaker_call_def Let_def)

theorem breaker_trips_and_short_circuits_witness:
  "state (on_failure payments_breaker 5 5 four_failures) = OPEN
   \<and> opened_at (on_failure payments_breaker 5 5 four_failures) = Some 5
   \<and> state (breaker (snd (breaker_call payments_breaker (answering (Raise ConnectError) :: unit returned call) None
        (s0\<lparr>mono := 5, breaker := four_failures\<rparr>)))) = OPEN
   \<and> opened_at (breaker (snd (breaker_call payments_breaker (answering (Raise ConnectError) :: unit returned call)
        None (s0\<lparr>mono := 5, breaker := four_failures\<rparr>)))) = Some 5
   \<and> breaker_call payments_breaker (answering (Return (Resp (resp 200))) :: unit returned call) None
        (s0\<lparr>mono := 6, breaker := open_since_5\<rparr>)
       = (Raise (HTTPException 503 ''Circuit breaker OPEN for payments''
                  [(''Retry-After'', ''30'')]),
          s0\<lparr>mono := 6, breaker := open_since_5\<rparr>)"
proof -
  have closed_5: "state (breaker (observe_state payments_breaker
                     (s0\<lparr>mono := 5, breaker := four_failures\<rparr>))) \<noteq> OPEN"
    by (simp add: observe_state_def get_state_def four_failures_def init_breaker_def
        prune_window_def payments_breaker_def s0_def)
  have open_6: "state (breaker (observe_state payments_breaker
                   (s0\<lparr>mono := 6, breaker := open_since_5\<rparr>))) = OPEN"
    by (simp add: observe_state_def get_state_def open_since_5_def payments_breaker_def s0_def)
  have trip_now:
    "state (on_failure payments_breaker 5 5 four_failures) = OPEN
     \<and> opened_at (on_failure payments_breaker 5 5 four_failures) = Some 5"
    using breaker_trips_and_short_circuits [where cfg = payments_breaker
      and now = 5 and now_prune = 5 and b = four_failures, THEN conjunct1]
    by (simp add: payments_breaker_def four_failures_def init_breaker_def)
  have failing:
    "state (breaker (observe_state payments_breaker
        (s0\<lparr>mono := 5, breaker := four_failures\<rparr>))) \<noteq> OPEN
     \<and> (answering (Raise ConnectError) :: unit returned call)
          (before_func payments_breaker (s0\<lparr>mono := 5, breaker := four_failures\<rparr>))
         = (Raise ConnectError, s0\<lparr>mono := 5, breaker := four_failures, http_calls := 1\<rparr>)
     \<and> failure_threshold payments_breaker
        \<le> int (length (filter
              (\<lambda>t. t > mono (s0\<lparr>mono := 5, breaker := four_failures, http_calls := 1\<rparr>)
                         - window_size payments_breaker)
              (failures (breaker (s0\<lparr>mono := 5, breaker := four_failures, http_calls := 1\<rparr>))
                 @ [mono (s0\<lparr>mono := 5, breaker := four_failures, http_calls := 1\<rparr>)])))"
    by (simp add: payments_breaker_def four_failures_def init_breaker_def answering_def
        before_func_def observe_state_def get_state_def prune_window_def s0_def)
  have trip_in_call:
    "state (breaker (snd (breaker_call payments_breaker (answering (Raise ConnectError) :: unit returned call) None
        (s0\<lparr>mono := 5, breaker := four_failures\<rparr>)))) = OPEN
     \<and> opened_at (breaker (snd (breaker_call payments_breaker (answering (Raise ConnectError) :: unit returned call)
        None (s0\<lparr>mono := 5, breaker := four_failures\<rparr>)))) = Some 5"
    using breaker_trips_and_short_circuits [where cfg = payments_breaker
      and s = "s0\<lparr>mono := 5, breaker := four_failures\<rparr>"
      and func = "answering (Raise ConnectError) :: unit returned call" and e = ConnectError and fallback = None
      and ?s1.0 = "s0\<lparr>mono := 5, breaker := four_failures, http_calls := 1\<rparr>",
      THEN conjunct2, THEN conjunct1, THEN mp, OF failing]
    by simp
  have short_circuit:
    "breaker_call payments_breaker (answering (Return (Resp (resp 200))) :: unit returned call) None
        (s0\<lparr>mono := 6, breaker := open_since_5\<rparr>)
       = (Raise (HTTPException 503 (''Circuit breaker OPEN for '' @ breaker_name payments_breaker)
                  [(''Retry-After'', str_int (int_of_float (open_duration payments_breaker)))]),
          set_gauge 1 (observe_state payments_breaker (s0\<lparr>mono := 6, breaker := open_since_5\<rparr>)))"
    using open_6 breaker_trips_and_short_circuits [where cfg = payments_breaker
      and s = "s0\<lparr>mono := 6, breaker := open_since_5\<rparr>"
      and func = "answering (Return (Resp (resp 200))) :: unit returned call", THEN conjunct2, THEN conjunct2]
    by simp
  have retry_after: "str_int (int_of_float (open_duration payments_breaker)) = ''30''"
    by (simp add: payments_breaker_def int_of_float_def str_int_def str_nat.simps)
  show ?thesis
    using trip_now trip_in_call short_circuit retry_after
    by (simp add: set_gauge_def observe_state_def get_state_def open_since_5_def
        payments_breaker_def s0_def)
qed


text \<open>
  The invariant: opened-at is set exactly when the breaker has tripped at least once,
  and an open breaker has tripped.
\<close>

lemma breaker_step_inv: "tripped_inv b \<Longrightarrow> tripped_inv (breaker_step cfg b op)"
  by (cases op) (auto simp: tripped_inv_def get_state_def on_success_def on_failure_def
      trip_def prune_window_def Let_def split: option.splits)

lemma breaker_foldl_inv:
  "tripped_inv b \<Longrightarrow> tripped_inv (foldl (breaker_step cfg) b ops)"
  by (induction ops arbitrary: b) (simp_all add: breaker_step_inv)

lemma breaker_run_inv: "tripped_inv (breaker_run cfg ops)"
  unfolding breaker_run_def
  by (rule breaker_foldl_inv) (simp add: tripped_inv_def init_breaker_def)

text \<open>
  C6, as the code has it.  After any sequence of the breaker's methods, opened-at is
  defined whenever the state is Open, and it is defined exactly when the breaker has
  tripped at least once: nothing clears it on the way to Half-Open or Closed.
\<close>

theorem opened_at_defined_when_open:
  "(state (breaker_run cfg ops) = OPEN \<longrightarrow> opened_at (breaker_run cfg ops) \<noteq> None)
   \<and> ((opened_at (breaker_run cfg ops) \<noteq> None) = (0 < breaker_open_total (breaker_run cfg ops)))"
  using breaker_run_inv [of cfg ops] unfolding tripped_inv_def by auto

theorem opened_at_defined_when_open_witness:
  "state (breaker_run payments_breaker
       [OnFailure 1 1, OnFailure 2 2, OnFailure 3 3, OnFailure 4 4, OnFailure 5 5]) = OPEN
   \<and> opened_at (breaker_run payments_breaker
       [OnFailure 1 1, OnFailure 2 2, OnFailure 3 3, OnFailure 4 4, OnFailure 5 5]) \<noteq> None
   \<and> 0 < breaker_open_total (breaker_run payments_breaker
       [OnFailure 1 1, OnFailure 2 2, OnFailure 3 3, OnFailure 4 4, OnFailure 5 5])"
proof -
  have is_open: "state (breaker_run payments_breaker
       [OnFailure 1 1, OnFailure 2 2, OnFailure 3 3, OnFailure 4 4, OnFailure 5 5]) = OPEN"
    by (simp add: breaker_run_def payments_breaker_def init_breaker_def on_failure_def
        trip_def prune_window_def Let_def)
  from is_open opened_at_defined_when_open [where cfg = payments_breaker
      and ops = "[OnFailure 1 1, OnFailure 2 2, OnFailure 3 3, OnFailure 4 4, OnFailure 5 5]"]
  show ?thesis by blast
qed

text \<open>
  C6 as stated fails: five failures open the breaker at time 5; the observation at time
  40 moves it to Half-Open and two successes close it, and opened-at is still 5.
\<close>

theorem opened_at_iff_open_counterexample:
  "state (breaker_run (default_breaker_config ''payments'')
       [OnFailure 1 1, OnFailure 2 2, OnFailure 3 3, OnFailure 4 4, OnFailure 5 5,
        GetState 40]) = HALF_OPEN
   \<and> opened_at (breaker_run (default_breaker_config ''payments'')
       [OnFailure 1 1, OnFailure 2 2, OnFailure 3 3, OnFailure 4 4, OnFailure 5 5,
        GetState 40]) = Some 5
   \<and> state (breaker_run (default_breaker_config ''payments'')
       [OnFailure 1 1, OnFailure 2 2, OnFailure 3 3, OnFailure 4 4, OnFailure 5 5,
        GetState 40, OnSuccess, OnSuccess]) = CLOSED
   \<and> opened_at (breaker_run (default_breaker_config ''payments'')
       [OnFailure 1 1, OnFailure 2 2, OnFailure 3 3, OnFailure 4 4, OnFailure 5 5,
        GetState 40, OnSuccess, OnSuccess]) = Some 5"
  by (simp add: breaker_run_def default_breaker_config_def init_breaker_def get_state_def
      on_success_def on_failure_def trip_def prune_window_def Let_def)

section \<open>Bulkhead: properties\<close>



section \<open>Load shedding: properties\<close>

text \<open>
  C8.  On a path that is not exempt: with \<open>inflight \<ge> max_inflight\<close> the answer is the
  429 response with \<open>Retry-After: 5\<close>, the handler is not run and the counter is
  unchanged; with \<open>inflight < max_inflight\<close>, in particular \<open>inflight = max_inflight - 1\<close>,
  the handler runs in a state whose counter is one higher, and the counter is
  decremented after it whether it returned or raised.
\<close>

theorem load_shed_dispatch:
  "path \<notin> skip_paths cfg \<longrightarrow>
     (max_inflight cfg \<le> inflight s \<longrightarrow>
        dispatch cfg path call_next s
          = (Return shed_response, s\<lparr>load_shed_total := load_shed_total s + 1\<rparr>)
        \<and> status_code shed_response = 429
        \<and> map_of (headers shed_response) ''Retry-After'' = Some ''5''
        \<and> inflight (snd (dispatch cfg path call_next s)) = inflight s)
   \<and> (inflight s < max_inflight cfg \<longrightarrow>
        fst (dispatch cfg path call_next s) = fst (call_next (s\<lparr>inflight := inflight s + 1\<rparr>))
        \<and> inflight (snd (dispatch cfg path call_next s))
            = inflight (snd (call_next (s\<lparr>inflight := inflight s + 1\<rparr>))) - 1)
   \<and> (inflight s = max_inflight cfg - 1 \<longrightarrow>
        fst (dispatch cfg path call_next s) = fst (call_next (s\<lparr>inflight := max_inflight cfg\<rparr>)))"
  by (auto simp: dispatch_def shed_response_def Let_def split: prod.splits)


theorem load_shed_dispatch_witness:
  "dispatch edge_limit ''/orders'' (handler (Return (resp 201))) (s0\<lparr>inflight := 200\<rparr>)
     = (Return shed_response, s0\<lparr>inflight := 200, load_shed_total := 1\<rparr>)
   \<and> status_code shed_response = 429
   \<and> fst (dispatch edge_limit ''/orders'' (handler (Return (resp 201))) (s0\<lparr>inflight := 199\<rparr>))
       = Return (resp 201)
   \<and> inflight (snd (dispatch edge_limit ''/orders'' (handler (Raise (OtherException ''boom'')))
                       (s0\<lparr>inflight := 199\<rparr>))) = 199"
proof -
  have not_exempt: "''/orders'' \<notin> skip_paths edge_limit"
    by (simp add: edge_limit_def default_skip_paths_def)
  note shed = load_shed_dispatch [where cfg = edge_limit and path = "''/orders''"
      and s = "s0\<lparr>inflight := 200\<rparr>" and call_next = "handler (Return (resp 201))",
      THEN mp, OF not_exempt, THEN conjunct1]
  note admit = load_shed_dispatch [where cfg = edge_limit and path = "''/orders''"
      and s = "s0\<lparr>inflight := 199\<rparr>" and call_next = "handler (Return (resp 201))",
      THEN mp, OF not_exempt, THEN conjunct2, THEN conjunct2]
  note leave = load_shed_dispatch [where cfg = edge_limit and path = "''/orders''"
      and s = "s0\<lparr>inflight := 199\<rparr>"
      and call_next = "handler (Raise (OtherException ''boom''))",
      THEN mp, OF not_exempt, THEN conjunct2, THEN conjunct1]
  show ?thesis
    using shed admit leave
    by (simp add: edge_limit_def s0_def handler_def)
qed

section \<open>Deadline propagation: properties\<close>

text \<open>
  C4, as the code has it.  For a header that parses to the deadline \<open>d\<close>: while \<open>d - now\<close>
  is positive the read timeout is \<open>min(10, d - now)\<close>, which does not exceed
  \<open>max(0, d - now)\<close>; once the deadline has passed the read timeout is the floor of
  0.001 s.
\<close>

theorem deadline_read_timeout:
  assumes "h \<noteq> []" and "to_float h = Some d"
  shows "deadline (from_deadline_header to_float now (Some h)) = Some d
       \<and> (0 < d - now \<longrightarrow>
            read_timeout (from_deadline_header to_float now (Some h)) = min 10 (d - now)
            \<and> read_timeout (from_deadline_header to_float now (Some h)) \<le> max 0 (d - now))
       \<and> (d - now \<le> 0 \<longrightarrow>
            read_timeout (from_deadline_header to_float now (Some h)) = 1 / 1000)"
  using assms by (simp add: from_deadline_header_def default_timeout_config_def Let_def)

lemma float_100: "float_of_digits ''100'' = Some 100"
  by (simp add: float_of_digits_def digit_of_def)

theorem deadline_read_timeout_witness:
  "read_timeout (from_deadline_header float_of_digits 97 (Some ''100'')) = 3
   \<and> read_timeout (from_deadline_header float_of_digits 50 (Some ''100'')) = 10
   \<and> read_timeout (from_deadline_header float_of_digits 200 (Some ''100'')) = 1 / 1000"
  using deadline_read_timeout [where h = "''100''" and to_float = float_of_digits and d = 100
          and now = 97]
        deadline_read_timeout [where h = "''100''" and to_float = float_of_digits and d = 100
          and now = 50]
        deadline_read_timeout [where h = "''100''" and to_float = float_of_digits and d = 100
          and now = 200]
  by (simp add: float_100)

text \<open>
  C4 as stated fails: with the header \<open>100\<close> read at time 200 the deadline has passed,
  and the read timeout is 0.001, not 0; it exceeds \<open>max(0, d - now) = 0\<close> and is not
  \<open>min(10, d - now) = -100\<close>.
\<close>

theorem deadline_expired_counterexample:
  "deadline (from_deadline_header float_of_digits 200 (Some ''100'')) = Some 100
   \<and> read_timeout (from_deadline_header float_of_digits 200 (Some ''100'')) \<noteq> 0
   \<and> \<not> read_timeout (from_deadline_header float_of_digits 200 (Some ''100''))
          \<le> max 0 (100 - 200)
   \<and> read_timeout (from_deadline_header float_of_digits 200 (Some ''100''))
        \<noteq> min (read_timeout default_timeout_config) (100 - 200)"
  by (simp add: from_deadline_header_def default_timeout_config_def float_100 Let_def)

section \<open>Composition of the wrappers: what the gateway does\<close>

lemmas run_defs =
  forward_def call_payments_def retry_with_backoff_def retry_loop.simps bulkhead_call_def
  wait_for_acquire_def take_slot_def
  breaker_call_def do_request_def payments_do_def flaky_upstream_def s0_def edge0_def
  gateway_retry_config_def payments_retry_config_def orders_breaker_def orders_bulkhead_def
  payments_breaker_def payments_bulkhead_def observe_state_def before_func_def set_gauge_def
  get_state_def init_breaker_def prune_window_def on_failure_def on_success_def trip_def
  schedule_retry_def backoff_delay_def spend_budget_def sleep_def budget_exhausted_def
  DEFAULT_RETRYABLE_STATUS_def resp_def Let_def

text \<open>
  C3.  The claim puts the bulkhead outermost, so that one forwarded call takes one slot.
  \<open>_forward\<close> instead hands \<open>_in_bulkhead\<close> to the retry engine.  With a downstream
  whose first request fails to connect, one forwarded call sends two requests, takes a
  bulkhead slot twice, and the breaker has recorded the failure of the first attempt;
  \<open>_call_payments\<close> in the orders service, on the same downstream, takes one slot
  and its breaker sees only the final success.
\<close>

theorem forward_retry_reenters_bulkhead:
  "fst (forward flaky_upstream orders_breaker orders_bulkhead edge0) = Return (Resp (resp 200))
   \<and> http_calls (snd (forward flaky_upstream orders_breaker orders_bulkhead edge0)) = 2
   \<and> retry_attempts_total (snd (forward flaky_upstream orders_breaker orders_bulkhead edge0)) = 1
   \<and> sem_acquired (snd (forward flaky_upstream orders_breaker orders_bulkhead edge0)) = 2
   \<and> failures (breaker (snd (forward flaky_upstream orders_breaker orders_bulkhead edge0))) = [0]
   \<and> fst (call_payments flaky_upstream s0) = Return (Resp (resp 200))
   \<and> http_calls (snd (call_payments flaky_upstream s0)) = 2
   \<and> retry_attempts_total (snd (call_payments flaky_upstream s0)) = 1
   \<and> sem_acquired (snd (call_payments flaky_upstream s0)) = 1
   \<and> failures (breaker (snd (call_payments flaky_upstream s0))) = []"
  by (simp add: run_defs)

text \<open>
  The other half of the claim does hold at the gateway: the bulkhead's rejection is an
  \<open>HTTPException\<close>, which the retry engine does not retry.
\<close>

lemma forward_rejection_not_retried:
  "fst (forward flaky_upstream orders_breaker orders_bulkhead full)
     = Raise (HTTPException 503 ''Bulkhead full for orders (max 50)'' [(''Retry-After'', ''2'')])
   \<and> retry_attempts_total (snd (forward flaky_upstream orders_breaker orders_bulkhead full)) = 0
   \<and> http_calls (snd (forward flaky_upstream orders_breaker orders_bulkhead full)) = 0"
  by (simp add: run_defs full_def str_int_def str_nat.simps)

section \<open>Notifications service: properties\<close>













text \<open>
  One event delivered over HTTP, read back from the stream, and delivered over HTTP
  again: one insertion, one append, one publish; the later deliveries only ack or answer
  \<open>already_processed\<close>.
\<close>

lemma redelivery_example:
  "history (run_deliveries
     [HttpEvent ''order_created'' ''o1'' ''{}'' True None,
      StreamBatch [(''1-0'', [(''event_id'', ''order_created:o1'')], None)],
      HttpEvent ''order_created'' ''o1'' ''{}'' True None])
   = [Acked ''1-0'' ''order_created:o1'',
      Logged ''event_received'' ''order_created:o1'',
      Published ''order_created:o1'',
      Appended ''order_created:o1'',
      Added ''order_created:o1'']"
  by (simp add: run_deliveries_def init_notif_def receive_event_def consume_entry_def
      did_def deque_append_def http_event_id_def stream_event_id_def Let_def)


end
